theory Spec2Isabelle
  imports Complex_Main "HOL-Library.Multiset"
begin

section \<open>JavaScript values\<close>

text \<open>
  A JavaScript string is a sequence of UTF-16 code units. String literals of the source
  are written with \<open>lit\<close>. A JavaScript number is an IEEE double: every double is a
  real, an infinity or NaN, and the services only compare numbers with literals.
\<close>

type_synonym js_string = "nat list"

definition lit :: "string \<Rightarrow> js_string" where
  "lit s = map of_char s"

datatype js_number = Num real | NaN | PosInfinity | NegInfinity

text \<open>\<open>a < b\<close> on numbers: false as soon as one side is NaN.\<close>

fun js_less :: "js_number \<Rightarrow> js_number \<Rightarrow> bool" where
  "js_less NaN _ = False"
| "js_less _ NaN = False"
| "js_less (Num a) (Num b) = (a < b)"
| "js_less (Num _) PosInfinity = True"
| "js_less (Num _) NegInfinity = False"
| "js_less PosInfinity _ = False"
| "js_less NegInfinity NegInfinity = False"
| "js_less NegInfinity _ = True"

text \<open>Truthiness: the empty string, \<open>0\<close>, \<open>NaN\<close> and \<open>undefined\<close> are falsy.\<close>

definition truthy_string :: "js_string option \<Rightarrow> bool" where
  "truthy_string v = (case v of None \<Rightarrow> False | Some s \<Rightarrow> s \<noteq> [])"

fun truthy_number :: "js_number \<Rightarrow> bool" where
  "truthy_number (Num r) = (r \<noteq> 0)"
| "truthy_number NaN = False"
| "truthy_number PosInfinity = True"
| "truthy_number NegInfinity = True"

text \<open>
  \<open>String.prototype.trim\<close> removes the white space and line terminator code units
  from both ends.
\<close>

definition js_whitespace :: "nat \<Rightarrow> bool" where
  "js_whitespace c =
     (c \<in> {0x09, 0x0A, 0x0B, 0x0C, 0x0D, 0x20, 0xA0, 0x1680, 0x2028, 0x2029, 0x202F,
            0x205F, 0x3000, 0xFEFF}
      \<or> (0x2000 \<le> c \<and> c \<le> 0x200A))"

definition js_trim :: "js_string \<Rightarrow> js_string" where
  "js_trim s = rev (dropWhile js_whitespace (rev (dropWhile js_whitespace s)))"

section \<open>errors/customErrors.ts\<close>

text \<open>
  The module exports the class \<open>AppError\<close> and six subclasses. Every constructor
  passes a fixed status code and \<open>isOperational = true\<close> to \<open>AppError\<close> and sets
  the prototype of the new object to its own class, so \<open>toJSON\<close> dispatches on the class.
  An error object is the three fields of \<open>AppError\<close> and the fields of its class.
\<close>

datatype error_class =
  AppError | ValidationError | NotFoundError | UnauthorizedError | ForbiddenError
| ConflictError | InternalServerError

record app_base =
  message :: js_string
  statusCode :: js_number
  isOperational :: bool

text \<open>The \<open>Error\<close> an \<open>InternalServerError\<close> wraps: its name and its message.\<close>

record native_error =
  error_name :: js_string
  error_message :: js_string

datatype ident_value = IdString js_string | IdNumber js_number

datatype app_error =
  AppError_obj app_base
| ValidationError_obj app_base "(js_string \<times> js_string list) list option"
| NotFoundError_obj app_base "js_string option" "ident_value option"
| UnauthorizedError_obj app_base
| ForbiddenError_obj app_base "js_string option"
| ConflictError_obj app_base "js_string option" "js_string option"
| InternalServerError_obj app_base "native_error option"

fun class_of :: "app_error \<Rightarrow> error_class" where
  "class_of (AppError_obj _) = AppError"
| "class_of (ValidationError_obj _ _) = ValidationError"
| "class_of (NotFoundError_obj _ _ _) = NotFoundError"
| "class_of (UnauthorizedError_obj _) = UnauthorizedError"
| "class_of (ForbiddenError_obj _ _) = ForbiddenError"
| "class_of (ConflictError_obj _ _ _) = ConflictError"
| "class_of (InternalServerError_obj _ _) = InternalServerError"

fun base_of :: "app_error \<Rightarrow> app_base" where
  "base_of (AppError_obj b) = b"
| "base_of (ValidationError_obj b _) = b"
| "base_of (NotFoundError_obj b _ _) = b"
| "base_of (UnauthorizedError_obj b) = b"
| "base_of (ForbiddenError_obj b _) = b"
| "base_of (ConflictError_obj b _ _) = b"
| "base_of (InternalServerError_obj b _) = b"

text \<open>A parameter with a default value takes the default when the argument is undefined.\<close>

definition or_default :: "'a option \<Rightarrow> 'a \<Rightarrow> 'a" where
  "or_default arg d = (case arg of None \<Rightarrow> d | Some v \<Rightarrow> v)"

definition AppError_init :: "js_string \<Rightarrow> js_number option \<Rightarrow> bool option \<Rightarrow> app_base" where
  "AppError_init msg code operational =
     \<lparr>message = msg, statusCode = or_default code (Num 500),
      isOperational = or_default operational True\<rparr>"

definition new_AppError :: "js_string \<Rightarrow> js_number option \<Rightarrow> bool option \<Rightarrow> app_error" where
  "new_AppError msg code operational = AppError_obj (AppError_init msg code operational)"

definition new_ValidationError ::
  "js_string option \<Rightarrow> (js_string \<times> js_string list) list option \<Rightarrow> app_error" where
  "new_ValidationError msg errs =
     ValidationError_obj
       (AppError_init (or_default msg (lit ''Validation failed'')) (Some (Num 400)) (Some True)) errs"

definition new_NotFoundError ::
  "js_string option \<Rightarrow> js_string option \<Rightarrow> ident_value option \<Rightarrow> app_error" where
  "new_NotFoundError msg res ident =
     NotFoundError_obj
       (AppError_init (or_default msg (lit ''Resource not found'')) (Some (Num 404)) (Some True))
       res ident"

definition new_UnauthorizedError :: "js_string option \<Rightarrow> app_error" where
  "new_UnauthorizedError msg =
     UnauthorizedError_obj
       (AppError_init (or_default msg (lit ''Authentication required'')) (Some (Num 401)) (Some True))"

definition new_ForbiddenError :: "js_string option \<Rightarrow> js_string option \<Rightarrow> app_error" where
  "new_ForbiddenError msg perm =
     ForbiddenError_obj
       (AppError_init (or_default msg (lit ''Access denied'')) (Some (Num 403)) (Some True)) perm"

definition new_ConflictError ::
  "js_string option \<Rightarrow> js_string option \<Rightarrow> js_string option \<Rightarrow> app_error" where
  "new_ConflictError msg field val =
     ConflictError_obj
       (AppError_init (or_default msg (lit ''Request conflicts with current state''))
          (Some (Num 409)) (Some True))
       field val"

definition new_InternalServerError :: "js_string option \<Rightarrow> native_error option \<Rightarrow> app_error" where
  "new_InternalServerError msg orig =
     InternalServerError_obj
       (AppError_init (or_default msg (lit ''Internal server error'')) (Some (Num 500)) (Some True))
       orig"

subsection \<open>toJSON\<close>

text \<open>
  The response object: its properties in insertion order. A property whose value is
  \<open>undefined\<close> is still a property of the object.
\<close>

datatype json =
  JString js_string
| JNumber js_number
| JUndefined
| JFieldErrors "(js_string \<times> js_string list) list"

type_synonym response = "(string \<times> json) list"

definition json_of_string :: "js_string option \<Rightarrow> json" where
  "json_of_string v = (case v of None \<Rightarrow> JUndefined | Some s \<Rightarrow> JString s)"

definition json_of_identifier :: "ident_value option \<Rightarrow> json" where
  "json_of_identifier v =
     (case v of None \<Rightarrow> JUndefined | Some (IdString s) \<Rightarrow> JString s | Some (IdNumber n) \<Rightarrow> JNumber n)"

definition truthy_identifier :: "ident_value option \<Rightarrow> bool" where
  "truthy_identifier v =
     (case v of None \<Rightarrow> False | Some (IdString s) \<Rightarrow> s \<noteq> [] | Some (IdNumber n) \<Rightarrow> truthy_number n)"

definition AppError_toJSON :: "app_base \<Rightarrow> response" where
  "AppError_toJSON b =
     [(''status'', JString (lit ''error'')),
      (''statusCode'', JNumber (statusCode b)),
      (''message'', JString (message b))]"

fun toJSON :: "app_error \<Rightarrow> response" where
  "toJSON (AppError_obj b) = AppError_toJSON b"
| "toJSON (ValidationError_obj b errs) =
     (case errs of
        Some fs \<Rightarrow> AppError_toJSON b @ [(''errors'', JFieldErrors fs)]
      | None \<Rightarrow> AppError_toJSON b)"
| "toJSON (NotFoundError_obj b res ident) =
     (if truthy_string res \<or> truthy_identifier ident
      then AppError_toJSON b @
           [(''resource'', json_of_string res), (''identifier'', json_of_identifier ident)]
      else AppError_toJSON b)"
| "toJSON (UnauthorizedError_obj b) = AppError_toJSON b"
| "toJSON (ForbiddenError_obj b perm) =
     (if truthy_string perm
      then AppError_toJSON b @ [(''requiredPermission'', json_of_string perm)]
      else AppError_toJSON b)"
| "toJSON (ConflictError_obj b field val) =
     (if truthy_string field \<or> truthy_string val
      then AppError_toJSON b @
           [(''conflictField'', json_of_string field), (''conflictValue'', json_of_string val)]
      else AppError_toJSON b)"
| "toJSON (InternalServerError_obj b orig) = AppError_toJSON b"

text \<open>The value of a property of a response; \<open>None\<close> when the object has no such property.\<close>

definition prop_of :: "response \<Rightarrow> string \<Rightarrow> json option" where
  "prop_of r k = map_of r k"

subsection \<open>The classes the module exports\<close>

definition customErrors_exports :: "(string \<times> error_class) list" where
  "customErrors_exports =
     [(''AppError'', AppError), (''ValidationError'', ValidationError),
      (''NotFoundError'', NotFoundError), (''UnauthorizedError'', UnauthorizedError),
      (''ForbiddenError'', ForbiddenError), (''ConflictError'', ConflictError),
      (''InternalServerError'', InternalServerError)]"

definition exported_class :: "string \<Rightarrow> error_class option" where
  "exported_class n = map_of customErrors_exports n"

text \<open>\<open>new C(msg)\<close> for an exported class \<open>C\<close>: every other argument is undefined.\<close>

fun construct :: "error_class \<Rightarrow> js_string \<Rightarrow> app_error" where
  "construct AppError msg = new_AppError msg None None"
| "construct ValidationError msg = new_ValidationError (Some msg) None"
| "construct NotFoundError msg = new_NotFoundError (Some msg) None None"
| "construct UnauthorizedError msg = new_UnauthorizedError (Some msg)"
| "construct ForbiddenError msg = new_ForbiddenError (Some msg) None"
| "construct ConflictError msg = new_ConflictError (Some msg) None None"
| "construct InternalServerError msg = new_InternalServerError (Some msg) None"

section \<open>utils/logger.ts\<close>

text \<open>
  The class \<open>Logger\<close> declares ten methods, all of them instance methods (properties of
  \<open>Logger.prototype\<close>), and no static member. The module ends with
  \<^verbatim>\<open>export const logger = new Logger();\<close> and \<^verbatim>\<open>export default Logger;\<close>:
  the export named \<open>logger\<close> is an instance, the default export is the class itself.
\<close>

datatype logger_value = Logger_class | Logger_instance

definition Logger_prototype_methods :: "string list" where
  "Logger_prototype_methods =
     [''getTimestamp'', ''formatLogEntry'', ''shouldLog'', ''log'', ''debug'', ''info'',
      ''warn'', ''error'', ''setLogLevel'', ''getLogLevel'']"

definition Logger_static_methods :: "string list" where
  "Logger_static_methods = []"

definition logger_named_export :: logger_value where
  "logger_named_export = Logger_instance"

definition logger_default_export :: logger_value where
  "logger_default_export = Logger_class"

text \<open>
  Whether \<open>v.m\<close> is a function, for the method names of the class: an instance finds the
  methods on its prototype, the class object has only its static members.
\<close>

fun has_method :: "logger_value \<Rightarrow> string \<Rightarrow> bool" where
  "has_method Logger_instance m = (m \<in> set Logger_prototype_methods)"
| "has_method Logger_class m = (m \<in> set Logger_static_methods)"

section \<open>Exceptions and promises\<close>

text \<open>
  What a service method throws is an error object of customErrors.ts or the \<open>TypeError\<close>
  of the runtime (with its message). An \<open>async\<close> method returns a promise: \<open>Inl\<close> is
  the rejection, \<open>Inr\<close> the value it resolves to.
\<close>

datatype js_exception = AppErr app_error | TypeError js_string

type_synonym 'a outcome = "js_exception + 'a"

definition seq :: "'a outcome \<Rightarrow> ('a \<Rightarrow> 'b outcome) \<Rightarrow> 'b outcome" where
  "seq r f = (case r of Inl e \<Rightarrow> Inl e | Inr x \<Rightarrow> f x)"

definition try_catch :: "'a outcome \<Rightarrow> (js_exception \<Rightarrow> 'a outcome) \<Rightarrow> 'a outcome" where
  "try_catch r handler = (case r of Inl e \<Rightarrow> handler e | Inr x \<Rightarrow> Inr x)"

text \<open>\<^verbatim>\<open>error instanceof Error ? error.message : String(error)\<close>\<close>

fun exception_message :: "js_exception \<Rightarrow> js_string" where
  "exception_message (AppErr e) = message (base_of e)"
| "exception_message (TypeError m) = m"

text \<open>
  The call \<open>logger.m(...)\<close> where \<open>logger\<close> is bound to \<open>lg\<close>: calling a property that
  is not a function throws a \<open>TypeError\<close>, whose message names the source expression
  (the wording is the engine's; only the class of the error matters below). A call of a
  method of the instance returns; what it prints to the console is not modelled.
\<close>

definition logger_call :: "logger_value \<Rightarrow> string \<Rightarrow> unit outcome" where
  "logger_call lg m =
     (if has_method lg m then Inr ()
      else Inl (TypeError (lit ''logger.'' @ lit m @ lit '' is not a function'')))"

section \<open>AdminService\<close>

text \<open>
  The service file starts with \<^verbatim>\<open>import logger from '../utils/logger';\<close>: a default
  import, so the identifier \<open>logger\<close> of the service is bound to the default export of
  logger.ts. The methods below take the binding as their first argument \<open>lg\<close>; the
  methods of the service as it is written are their instances at \<open>AdminService_logger\<close>.
\<close>

definition AdminService_logger :: logger_value where
  "AdminService_logger = logger_default_export"

text \<open>
  The types \<open>CardInput\<close>, \<open>CardUpdateInput\<close> and \<open>Card\<close> come from \<open>../types/card\<close>,
  which is not among the sources: the records hold the properties the service reads
  (each may be undefined) and, for an update, the number of own keys of the object.
\<close>

record CardInput =
  name :: "js_string option"
  rarity :: "js_string option"
  price :: "js_number option"
  stock :: "js_number option"

record CardUpdateInput =
  upd_name :: "js_string option"
  upd_rarity :: "js_string option"
  upd_price :: "js_number option"
  upd_stock :: "js_number option"
  upd_keys :: nat

record Card =
  card_id :: js_string
  card_data :: CardInput
  createdBy :: js_string
  createdAt :: nat
  updatedAt :: nat

definition valid_rarities :: "js_string list" where
  "valid_rarities = map lit [''common'', ''uncommon'', ''rare'', ''epic'', ''legendary'']"

definition throw :: "app_error \<Rightarrow> 'a outcome" where
  "throw e = Inl (AppErr e)"

definition validateCardInput :: "CardInput \<Rightarrow> unit outcome" where
  "validateCardInput cardData =
     (if (case name cardData of None \<Rightarrow> True | Some n \<Rightarrow> n = [] \<or> js_trim n = [])
      then throw (new_ValidationError (Some (lit ''Card name is required'')) None)
      else if (case rarity cardData of None \<Rightarrow> True
               | Some r \<Rightarrow> r = [] \<or> r \<notin> set valid_rarities)
      then throw (new_ValidationError (Some (lit ''Valid card rarity is required'')) None)
      else if (case price cardData of None \<Rightarrow> True | Some p \<Rightarrow> js_less p (Num 0))
      then throw (new_ValidationError
                    (Some (lit ''Card price must be a non-negative number'')) None)
      else if (case stock cardData of None \<Rightarrow> True | Some q \<Rightarrow> js_less q (Num 0))
      then throw (new_ValidationError
                    (Some (lit ''Card stock must be a non-negative number'')) None)
      else Inr ())"

definition validateCardUpdate :: "CardUpdateInput \<Rightarrow> unit outcome" where
  "validateCardUpdate updateData =
     (if (case upd_name updateData of None \<Rightarrow> False | Some n \<Rightarrow> n = [] \<or> js_trim n = [])
      then throw (new_ValidationError (Some (lit ''Card name cannot be empty'')) None)
      else if (case upd_rarity updateData of None \<Rightarrow> False | Some r \<Rightarrow> r \<notin> set valid_rarities)
      then throw (new_ValidationError (Some (lit ''Invalid card rarity'')) None)
      else if (case upd_price updateData of None \<Rightarrow> False | Some p \<Rightarrow> js_less p (Num 0))
      then throw (new_ValidationError
                    (Some (lit ''Card price must be a non-negative number'')) None)
      else if (case upd_stock updateData of None \<Rightarrow> False | Some q \<Rightarrow> js_less q (Num 0))
      then throw (new_ValidationError
                    (Some (lit ''Card stock must be a non-negative number'')) None)
      else Inr ())"

text \<open>
  \<open>verifyAdminPermissions\<close>: the permission check is a TODO; the body only calls
  \<open>logger.debug\<close>, and whatever that throws is rethrown as an \<open>UnauthorizedError\<close>.
\<close>

definition verifyAdminPermissions_with ::
  "logger_value \<Rightarrow> js_string \<Rightarrow> js_string \<Rightarrow> unit outcome" where
  "verifyAdminPermissions_with lg adminId permission =
     try_catch (logger_call lg ''debug'')
       (\<lambda>error. throw (new_UnauthorizedError
          (Some (lit ''Permission verification failed: '' @ exception_message error))))"

text \<open>The \<open>catch\<close> block of every public method: log the error, then rethrow it.\<close>

definition log_and_rethrow :: "logger_value \<Rightarrow> js_exception \<Rightarrow> 'a outcome" where
  "log_and_rethrow lg error = seq (logger_call lg ''error'') (\<lambda>_. Inl error)"

definition not_found :: "js_string \<Rightarrow> app_error" where
  "not_found cardId =
     new_NotFoundError (Some (lit ''Card with ID '' @ cardId @ lit '' not found'')) None None"

text \<open>\<open>now1\<close> and \<open>now2\<close> are the two readings of the clock (\<open>new Date()\<close>).\<close>

definition createCard_with ::
  "logger_value \<Rightarrow> CardInput \<Rightarrow> js_string \<Rightarrow> nat \<Rightarrow> nat \<Rightarrow> Card outcome" where
  "createCard_with lg cardData adminId now1 now2 =
     try_catch
       (seq (logger_call lg ''info'') (\<lambda>_.
        seq (validateCardInput cardData) (\<lambda>_.
        seq (verifyAdminPermissions_with lg adminId (lit ''CREATE_CARD'')) (\<lambda>_.
        seq (logger_call lg ''info'') (\<lambda>_.
        Inr \<lparr>card_id = lit ''card-id'', card_data = cardData, createdBy = adminId,
             createdAt = now1, updatedAt = now2\<rparr>)))))
       (log_and_rethrow lg)"

definition getCardById_with :: "logger_value \<Rightarrow> js_string \<Rightarrow> js_string \<Rightarrow> Card outcome" where
  "getCardById_with lg cardId adminId =
     try_catch
       (seq (logger_call lg ''info'') (\<lambda>_.
        seq (verifyAdminPermissions_with lg adminId (lit ''READ_CARD'')) (\<lambda>_.
        seq (logger_call lg ''info'') (\<lambda>_.
        throw (not_found cardId)))))
       (log_and_rethrow lg)"

text \<open>A card is an object, and an object is truthy: \<open>!existingCard\<close> is false.\<close>

definition truthy_card :: "Card \<Rightarrow> bool" where
  "truthy_card c = True"

definition updateCard_with ::
  "logger_value \<Rightarrow> js_string \<Rightarrow> CardUpdateInput \<Rightarrow> js_string \<Rightarrow> Card outcome" where
  "updateCard_with lg cardId updateData adminId =
     try_catch
       (seq (logger_call lg ''info'') (\<lambda>_.
        seq (getCardById_with lg cardId adminId) (\<lambda>existingCard.
        seq (if \<not> truthy_card existingCard then throw (not_found cardId) else Inr ()) (\<lambda>_.
        seq (if 0 < upd_keys updateData then validateCardUpdate updateData else Inr ()) (\<lambda>_.
        seq (verifyAdminPermissions_with lg adminId (lit ''UPDATE_CARD'')) (\<lambda>_.
        seq (logger_call lg ''info'') (\<lambda>_.
        throw (not_found cardId))))))))
       (log_and_rethrow lg)"

definition deleteCard_with :: "logger_value \<Rightarrow> js_string \<Rightarrow> js_string \<Rightarrow> bool outcome" where
  "deleteCard_with lg cardId adminId =
     try_catch
       (seq (logger_call lg ''info'') (\<lambda>_.
        seq (getCardById_with lg cardId adminId) (\<lambda>card.
        seq (if \<not> truthy_card card then throw (not_found cardId) else Inr ()) (\<lambda>_.
        seq (verifyAdminPermissions_with lg adminId (lit ''DELETE_CARD'')) (\<lambda>_.
        seq (logger_call lg ''info'') (\<lambda>_.
        Inr True))))))
       (log_and_rethrow lg)"

text \<open>The methods of the service as it is written.\<close>

definition createCard :: "CardInput \<Rightarrow> js_string \<Rightarrow> nat \<Rightarrow> nat \<Rightarrow> Card outcome" where
  "createCard = createCard_with AdminService_logger"

definition getCardById :: "js_string \<Rightarrow> js_string \<Rightarrow> Card outcome" where
  "getCardById = getCardById_with AdminService_logger"

definition updateCard :: "js_string \<Rightarrow> CardUpdateInput \<Rightarrow> js_string \<Rightarrow> Card outcome" where
  "updateCard = updateCard_with AdminService_logger"

definition deleteCard :: "js_string \<Rightarrow> js_string \<Rightarrow> bool outcome" where
  "deleteCard = deleteCard_with AdminService_logger"

text \<open>
  The inputs \<open>validateCardInput\<close> rejects, as a predicate: a missing, empty or white-space
  name, a missing rarity or one outside the five accepted strings, a missing or negative
  price, a missing or negative stock.
\<close>

definition rejected_input :: "CardInput \<Rightarrow> bool" where
  "rejected_input c \<longleftrightarrow>
     (case name c of None \<Rightarrow> True | Some n \<Rightarrow> list_all js_whitespace n)
     \<or> (case rarity c of None \<Rightarrow> True | Some r \<Rightarrow> r \<notin> set valid_rarities)
     \<or> (case price c of None \<Rightarrow> True | Some p \<Rightarrow> js_less p (Num 0))
     \<or> (case stock c of None \<Rightarrow> True | Some q \<Rightarrow> js_less q (Num 0))"

section \<open>Card types of the type declarations\<close>

text \<open>
  The enum \<open>CardRarity\<close> of the type declarations. Its members are declared from the
  most common to the rarest; \<open>rarity_rank\<close> is the position in the declaration, and
  "RARE or higher" is read on it.
\<close>

datatype CardRarity = COMMON | UNCOMMON | RARE | EPIC | LEGENDARY | MYTHIC

fun rarity_rank :: "CardRarity \<Rightarrow> nat" where
  "rarity_rank COMMON = 0"
| "rarity_rank UNCOMMON = 1"
| "rarity_rank RARE = 2"
| "rarity_rank EPIC = 3"
| "rarity_rank LEGENDARY = 4"
| "rarity_rank MYTHIC = 5"

definition all_rarities :: "CardRarity list" where
  "all_rarities = [COMMON, UNCOMMON, RARE, EPIC, LEGENDARY, MYTHIC]"

definition rare_or_higher :: "CardRarity \<Rightarrow> bool" where
  "rare_or_higher r = (rarity_rank RARE \<le> rarity_rank r)"

section \<open>The Draw Engine of the specification\<close>

text \<open>
  The sources hold no draw: of the opening engine they declare the types only. The
  definitions of this section follow section 4.2 of the specification.
\<close>

text \<open>
  Modelled from the spec: the random source of the Draw Engine (section 4.2), which is
  not in the sources. A source is a stream of natural numbers with the position of the
  next one to read.
\<close>

type_synonym rng = "(nat \<Rightarrow> nat) \<times> nat"

text \<open>
  Modelled from the spec: one read of the random source (section 4.2), which advances
  the position.
\<close>

definition next_random :: "rng \<Rightarrow> nat \<times> rng" where
  "next_random g = (fst g (snd g), (fst g, Suc (snd g)))"

text \<open>
  Modelled from the spec: a card of the Rarity Table (sections 3 and 4.1), which is not
  in the sources: the id of the card and its \<open>isHolo\<close> flag.
\<close>

record TableCard =
  tableCardId :: js_string
  isHolo :: bool

text \<open>
  Modelled from the spec: what the Rarity Table holds for one rarity (section 3): the
  weight, here a natural number, and the ordered sequence of the eligible cards.
\<close>

record RarityEntry =
  weight :: nat
  eligible :: "TableCard list"

text \<open>
  Modelled from the spec: the Rarity Table (sections 3 and 4.1), which is not in the
  sources: an entry for every rarity, and the mark of a non-repeating set.
\<close>

record RarityTable =
  entries :: "CardRarity \<Rightarrow> RarityEntry"
  nonRepeating :: bool

text \<open>Modelled from the spec: \<open>weightOf\<close> of the Rarity Table contract (section 4.1).\<close>

definition weightOf :: "RarityTable \<Rightarrow> CardRarity \<Rightarrow> nat" where
  "weightOf T r = weight (entries T r)"

text \<open>Modelled from the spec: \<open>eligibleCards\<close> of the Rarity Table contract (section 4.1).\<close>

definition eligibleCards :: "RarityTable \<Rightarrow> CardRarity \<Rightarrow> TableCard list" where
  "eligibleCards T r = eligible (entries T r)"

text \<open>
  Modelled from the spec: PackSpec (section 3), of which the sources declare only the
  fields (in \<open>Pack\<close> and \<open>CreatePackPayload\<close>). The three counts are natural numbers.
\<close>

record PackSpec =
  cardsPerPack :: nat
  guaranteedRares :: nat
  guaranteedHolos :: nat

text \<open>Modelled from the spec: the invariant of a PackSpec (section 3).\<close>

definition PackSpec_invariant :: "PackSpec \<Rightarrow> bool" where
  "PackSpec_invariant p = (guaranteedRares p + guaranteedHolos p \<le> cardsPerPack p)"

text \<open>
  Modelled from the spec: a drawn card reference of a DrawResult (sections 3 and 4.2):
  the card id, its rarity, the holo flag, and the value snapshot taken at draw time.
\<close>

record CardRef =
  ref_id :: js_string
  ref_rarity :: CardRarity
  ref_holo :: bool
  snapshotValue :: nat

type_synonym DrawResult = "CardRef list"

text \<open>
  Modelled from the spec: the error of section 7 for a pool that is too small. The sources
  define no class for it.
\<close>

datatype draw_error = InsufficientPoolError

text \<open>
  Modelled from the spec: the cumulative weights of the weighted choice (section 4.2,
  step 3).
\<close>

fun cumulative :: "nat \<Rightarrow> nat list \<Rightarrow> nat list" where
  "cumulative acc [] = []"
| "cumulative acc (w # ws) = (acc + w) # cumulative (acc + w) ws"

text \<open>
  Modelled from the spec: the binary search of the weighted choice (section 4.2, step 3)
  for the first position between \<open>lo\<close> and \<open>hi\<close> whose cumulative weight exceeds \<open>x\<close>.
\<close>

function search :: "nat list \<Rightarrow> nat \<Rightarrow> nat \<Rightarrow> nat \<Rightarrow> nat" where
  "search cum x lo hi =
     (if lo < hi
      then (let mid = (lo + hi) div 2
            in if x < cum ! mid then search cum x lo mid else search cum x (Suc mid) hi)
      else lo)"
  by pat_completeness auto
termination
  by (relation "measure (\<lambda>(cum, x, lo, hi). hi - lo)") auto

text \<open>
  Modelled from the spec: the weighted choice (section 4.2, step 3): the number \<open>u\<close> of
  the random source gives a uniform draw below the total weight, and the search finds
  its position among the cumulative weights.
\<close>

definition weighted_index :: "nat list \<Rightarrow> nat \<Rightarrow> nat" where
  "weighted_index ws u =
     search (cumulative 0 ws) (u mod sum_list ws) 0 (length ws - 1)"

text \<open>
  Modelled from the spec: the pool of a draw (section 4.2, steps 1 to 3): for every
  rarity the restriction admits, its weight and its eligible cards that the restriction
  admits; a rarity with no such card is left out.
\<close>

type_synonym pool = "(CardRarity \<times> nat \<times> TableCard list) list"

definition restricted_pool ::
  "RarityTable \<Rightarrow> (CardRarity \<Rightarrow> bool) \<Rightarrow> (TableCard \<Rightarrow> bool) \<Rightarrow> pool" where
  "restricted_pool T admits_rarity admits_card =
     filter (\<lambda>(r, w, cs). cs \<noteq> [])
       (map (\<lambda>r. (r, weightOf T r, filter admits_card (eligibleCards T r)))
          (filter admits_rarity all_rarities))"

text \<open>Modelled from the spec: the size of a pool (section 4.2, step 1): its cards.\<close>

definition pool_size :: "pool \<Rightarrow> nat" where
  "pool_size p = sum_list (map (\<lambda>(r, w, cs). length cs) p)"

text \<open>
  Modelled from the spec: the weights a draw from a pool uses (section 4.2): the weights
  of its rarities; when all of them are zero (the degenerate weights of the edge cases),
  the rarities of the pool count the same, so that a guarantee still applies.
\<close>

definition selection_weights :: "pool \<Rightarrow> nat list" where
  "selection_weights p =
     (let ws = map (\<lambda>(r, w, cs). w) p
      in if sum_list ws = 0 then map (\<lambda>_. 1) ws else ws)"

text \<open>
  Modelled from the spec: one weighted draw from a pool (section 4.2). A first number of
  the source chooses the rarity in proportion to the weights, a second one a card among
  the cards of that rarity (the spec does not say how; here uniformly). The value of the
  card is read from the catalog at this moment (\<open>currentValue\<close>, section 6). The result
  also names the position drawn, which a draw without replacement removes.
\<close>

definition pick ::
  "(js_string \<Rightarrow> nat) \<Rightarrow> pool \<Rightarrow> rng \<Rightarrow> (CardRef \<times> nat \<times> nat) \<times> rng" where
  "pick currentValue p g =
     (let (u, g1) = next_random g;
          i = weighted_index (selection_weights p) u;
          (r, w, cs) = p ! i;
          (v, g2) = next_random g1;
          j = v mod length cs;
          c = cs ! j
      in ((\<lparr>ref_id = tableCardId c, ref_rarity = r, ref_holo = isHolo c,
             snapshotValue = currentValue (tableCardId c)\<rparr>, i, j), g2))"

text \<open>
  Modelled from the spec: sampling without replacement (section 4.2, step 1): the card
  drawn leaves the pool, and a rarity left with no card leaves it too.
\<close>

definition remove_card :: "pool \<Rightarrow> nat \<Rightarrow> nat \<Rightarrow> pool" where
  "remove_card p i j =
     (let (r, w, cs) = p ! i;
          cs' = take j cs @ drop (Suc j) cs
      in if cs' = [] then take i p @ drop (Suc i) p else p[i := (r, w, cs')])"

text \<open>
  Modelled from the spec: \<open>n\<close> slots drawn from a pool (section 4.2), with replacement,
  or without. A draw from an empty pool fails.
\<close>

fun draw_slots ::
  "(js_string \<Rightarrow> nat) \<Rightarrow> bool \<Rightarrow> pool \<Rightarrow> nat \<Rightarrow> rng \<Rightarrow> (draw_error + CardRef list) \<times> rng" where
  "draw_slots currentValue without_replacement p 0 g = (Inr [], g)"
| "draw_slots currentValue without_replacement p (Suc n) g =
     (if p = [] then (Inl InsufficientPoolError, g)
      else (let ((c, i, j), g1) = pick currentValue p g;
                p1 = (if without_replacement then remove_card p i j else p)
            in case draw_slots currentValue without_replacement p1 n g1 of
                 (Inl e, g2) \<Rightarrow> (Inl e, g2)
               | (Inr cs, g2) \<Rightarrow> (Inr (c # cs), g2)))"

text \<open>
  Modelled from the spec: the slots of a guarantee (section 4.2, steps 1 and 2). In a
  non-repeating set the draw is without replacement and fails with
  \<open>InsufficientPoolError\<close> when the pool is smaller than the requested count.
\<close>

definition draw_guaranteed ::
  "(js_string \<Rightarrow> nat) \<Rightarrow> RarityTable \<Rightarrow> pool \<Rightarrow> nat \<Rightarrow> rng \<Rightarrow> (draw_error + CardRef list) \<times> rng" where
  "draw_guaranteed currentValue T p n g =
     (if nonRepeating T \<and> pool_size p < n then (Inl InsufficientPoolError, g)
      else draw_slots currentValue (nonRepeating T) p n g)"

text \<open>Modelled from the spec: the exchange of two slots in the shuffle (section 4.2, step 4).\<close>

definition swap :: "'a list \<Rightarrow> nat \<Rightarrow> nat \<Rightarrow> 'a list" where
  "swap xs i j = xs[i := xs ! j, j := xs ! i]"

text \<open>
  Modelled from the spec: the loop of the Fisher-Yates shuffle (section 4.2, step 4), from
  the last slot down to the second: slot \<open>i\<close> is exchanged with a slot drawn uniformly
  among the slots \<open>0\<close> to \<open>i\<close>.
\<close>

fun shuffle_down :: "nat \<Rightarrow> 'a list \<Rightarrow> rng \<Rightarrow> 'a list \<times> rng" where
  "shuffle_down 0 xs g = (xs, g)"
| "shuffle_down (Suc i) xs g =
     (let (u, g1) = next_random g
      in shuffle_down i (swap xs (Suc i) (u mod (Suc (Suc i)))) g1)"

text \<open>Modelled from the spec: the Fisher-Yates shuffle (section 4.2, step 4).\<close>

definition shuffle :: "'a list \<Rightarrow> rng \<Rightarrow> 'a list \<times> rng" where
  "shuffle xs g = shuffle_down (length xs - 1) xs g"

text \<open>
  Modelled from the spec: the Draw Engine (section 4.2): the guaranteed rares from the
  pool of the rarities RARE or higher, the guaranteed holos from the pool of the holo
  cards of every rarity, the remaining slots from the full table with replacement, and
  the shuffle of the combined slots. The result is the DrawResult, or the error, with the
  random source as the draw leaves it.
\<close>

definition draw ::
  "(js_string \<Rightarrow> nat) \<Rightarrow> RarityTable \<Rightarrow> PackSpec \<Rightarrow> rng \<Rightarrow> (draw_error + DrawResult) \<times> rng" where
  "draw currentValue T spec g =
     (case draw_guaranteed currentValue T (restricted_pool T rare_or_higher (\<lambda>c. True))
             (guaranteedRares spec) g of
        (Inl e, g1) \<Rightarrow> (Inl e, g1)
      | (Inr rares, g1) \<Rightarrow>
     (case draw_guaranteed currentValue T (restricted_pool T (\<lambda>r. True) isHolo)
             (guaranteedHolos spec) g1 of
        (Inl e, g2) \<Rightarrow> (Inl e, g2)
      | (Inr holos, g2) \<Rightarrow>
     (case draw_slots currentValue False (restricted_pool T (\<lambda>r. True) (\<lambda>c. True))
             (cardsPerPack spec - guaranteedRares spec - guaranteedHolos spec) g2 of
        (Inl e, g3) \<Rightarrow> (Inl e, g3)
      | (Inr fill, g3) \<Rightarrow>
          (let (cards, g4) = shuffle (rares @ holos @ fill) g3 in (Inr cards, g4)))))"

subsection \<open>Predicates on pools\<close>

text \<open>Every rarity of the pool has a card.\<close>

definition pool_ok :: "pool \<Rightarrow> bool" where
  "pool_ok p = list_all (\<lambda>(r, w, cs). cs \<noteq> []) p"

text \<open>Every card of the pool satisfies \<open>P\<close>, a property of its rarity and holo flag.\<close>

definition pool_all :: "(CardRarity \<Rightarrow> bool \<Rightarrow> bool) \<Rightarrow> pool \<Rightarrow> bool" where
  "pool_all P p = list_all (\<lambda>(r, w, cs). list_all (\<lambda>c. P r (isHolo c)) cs) p"

subsection \<open>An example\<close>

text \<open>
  A table with two common and two rare cards, one holo card of each rarity; a catalog of
  values, a random source, the PackSpec of the scenario of section 8, and a smaller one.
\<close>

definition example_table :: RarityTable where
  "example_table =
     \<lparr>entries = (\<lambda>r.
        if r = COMMON
        then \<lparr>weight = 70, eligible = [\<lparr>tableCardId = lit ''c1'', isHolo = False\<rparr>,
                                        \<lparr>tableCardId = lit ''c2'', isHolo = True\<rparr>]\<rparr>
        else if r = RARE
        then \<lparr>weight = 30, eligible = [\<lparr>tableCardId = lit ''r1'', isHolo = False\<rparr>,
                                        \<lparr>tableCardId = lit ''r2'', isHolo = True\<rparr>]\<rparr>
        else \<lparr>weight = 0, eligible = []\<rparr>),
      nonRepeating = False\<rparr>"

definition example_value :: "js_string \<Rightarrow> nat" where
  "example_value c = (if c = lit ''r2'' then 500 else if c = lit ''r1'' then 200 else 10)"

definition example_source :: rng where
  "example_source =
     ((\<lambda>i. [3, 14, 15, 92, 65, 35, 89, 79, 32, 38, 46, 26, 43, 38, 32, 79, 50, 28, 84, 19,
             71, 69, 39, 93, 75, 10, 58, 20, 97, 49] ! (i mod 30)), 0)"

definition example_spec :: PackSpec where
  "example_spec = \<lparr>cardsPerPack = 10, guaranteedRares = 2, guaranteedHolos = 1\<rparr>"

definition small_spec :: PackSpec where
  "small_spec = \<lparr>cardsPerPack = 3, guaranteedRares = 1, guaranteedHolos = 1\<rparr>"

text \<open>
  The example table marked non-repeating, and a PackSpec that asks for three guaranteed
  rares where the table has two cards of rarity RARE or higher.
\<close>

definition non_repeating_table :: RarityTable where
  "non_repeating_table = example_table\<lparr>nonRepeating := True\<rparr>"

definition demanding_spec :: PackSpec where
  "demanding_spec = \<lparr>cardsPerPack = 5, guaranteedRares = 3, guaranteedHolos = 1\<rparr>"

section \<open>Theorems: the error classes\<close>

text \<open>
  Claim C7. Every error object of customErrors.ts, of whichever class, answers \<open>toJSON\<close>
  with an object that has the properties \<open>status\<close> (the string \<open>error\<close>),
  \<open>statusCode\<close> and \<open>message\<close> (those of the error). Two \<open>InternalServerError\<close>
  objects with the same message and status code give the same response whatever error
  each one wraps, and the response of an \<open>InternalServerError\<close> has these three
  properties and no other: nothing of the wrapped error reaches it.
\<close>

theorem toJSON_stable_response:
  "prop_of (toJSON e) ''status'' = Some (JString (lit ''error''))
   \<and> prop_of (toJSON e) ''statusCode'' = Some (JNumber (statusCode (base_of e)))
   \<and> prop_of (toJSON e) ''message'' = Some (JString (message (base_of e)))
   \<and> toJSON (InternalServerError_obj \<lparr>message = m, statusCode = c, isOperational = op1\<rparr> orig1)
     = toJSON (InternalServerError_obj \<lparr>message = m, statusCode = c, isOperational = op2\<rparr> orig2)
   \<and> map fst (toJSON (InternalServerError_obj b orig)) = [''status'', ''statusCode'', ''message'']"
  by (cases e) (auto simp: prop_of_def AppError_toJSON_def split: option.splits)

text \<open>
  Claim C8, as the sources refute it: the module exports no class named
  \<open>InsufficientPoolError\<close>.
\<close>

theorem no_InsufficientPoolError_class:
  "exported_class ''InsufficientPoolError'' = None"
  by (simp add: exported_class_def customErrors_exports_def)

section \<open>Theorems: AdminService\<close>

subsection \<open>The logger calls\<close>

lemma logger_call_class:
  "logger_call Logger_class m = Inl (TypeError (lit ''logger.'' @ lit m @ lit '' is not a function''))"
  by (simp add: logger_call_def Logger_static_methods_def)

lemma logger_call_instance:
  "logger_call Logger_instance ''info'' = Inr ()"
  "logger_call Logger_instance ''debug'' = Inr ()"
  "logger_call Logger_instance ''error'' = Inr ()"
  by (simp_all add: logger_call_def Logger_prototype_methods_def)

lemma log_and_rethrow_instance: "log_and_rethrow Logger_instance e = Inl e"
  by (simp add: log_and_rethrow_def logger_call_instance seq_def)

subsection \<open>The service as it is written\<close>

text \<open>
  Claim C9, on the service as it is written. The first statement of \<open>getCardById\<close>, of
  \<open>updateCard\<close> and of \<open>deleteCard\<close> is \<open>logger.info(...)\<close>, and \<open>logger\<close> is the
  class \<open>Logger\<close>, which has no static \<open>info\<close>: the call throws a \<open>TypeError\<close>. The
  \<open>catch\<close> block then calls \<open>logger.error(...)\<close>, which throws a \<open>TypeError\<close> in turn,
  and that one leaves the method. So the three methods reject every input with a
  \<open>TypeError\<close>: none returns a card, and none throws the \<open>NotFoundError\<close> that its
  body constructs.
\<close>

theorem card_lookup_rejects_with_TypeError:
  "getCardById cardId adminId = Inl (TypeError (lit ''logger.error is not a function''))
   \<and> updateCard cardId updateData adminId = Inl (TypeError (lit ''logger.error is not a function''))
   \<and> deleteCard cardId adminId = Inl (TypeError (lit ''logger.error is not a function''))"
  by (simp add: getCardById_def updateCard_def deleteCard_def getCardById_with_def
      updateCard_with_def deleteCard_with_def AdminService_logger_def logger_default_export_def
      logger_call_class seq_def try_catch_def log_and_rethrow_def lit_def)

text \<open>
  Claim C10, on the service as it is written. \<open>createCard\<close> calls \<open>logger.info(...)\<close>
  before it validates its input, so for every input, valid or not, it rejects with the
  \<open>TypeError\<close> of the \<open>catch\<close> block and never with a \<open>ValidationError\<close>.
\<close>

theorem createCard_rejects_with_TypeError:
  "createCard cardData adminId now1 now2 = Inl (TypeError (lit ''logger.error is not a function''))"
  by (simp add: createCard_def createCard_with_def AdminService_logger_def
      logger_default_export_def logger_call_class seq_def try_catch_def log_and_rethrow_def lit_def)

subsection \<open>The service with the named export of the logger\<close>

text \<open>
  With \<open>logger\<close> bound to the instance that logger.ts exports by name, the methods do
  what their bodies say: \<open>getCardById\<close>, \<open>updateCard\<close> and \<open>deleteCard\<close> throw the
  \<open>NotFoundError\<close> of status 404 for every input, and \<open>createCard\<close> throws exactly what
  \<open>validateCardInput\<close> throws.
\<close>

lemma verifyAdminPermissions_named_export:
  "verifyAdminPermissions_with logger_named_export adminId permission = Inr ()"
  by (simp add: verifyAdminPermissions_with_def logger_named_export_def logger_call_instance
      try_catch_def)

lemma getCardById_named_export:
  "getCardById_with logger_named_export cardId adminId = throw (not_found cardId)"
  using verifyAdminPermissions_named_export
  by (simp add: getCardById_with_def logger_named_export_def logger_call_instance
      log_and_rethrow_instance seq_def try_catch_def throw_def)

lemma updateCard_named_export:
  "updateCard_with logger_named_export cardId updateData adminId = throw (not_found cardId)"
  using getCardById_named_export
  by (simp add: updateCard_with_def logger_named_export_def logger_call_instance
      log_and_rethrow_instance seq_def try_catch_def throw_def)

lemma deleteCard_named_export:
  "deleteCard_with logger_named_export cardId adminId = throw (not_found cardId)"
  using getCardById_named_export
  by (simp add: deleteCard_with_def logger_named_export_def logger_call_instance
      log_and_rethrow_instance seq_def try_catch_def throw_def)

lemma not_found_class:
  "class_of (not_found cardId) = NotFoundError"
  "statusCode (base_of (not_found cardId)) = Num 404"
  by (simp_all add: not_found_def new_NotFoundError_def AppError_init_def or_default_def)

lemma createCard_named_export:
  "createCard_with logger_named_export c adminId now1 now2 =
     seq (validateCardInput c) (\<lambda>_.
       Inr \<lparr>card_id = lit ''card-id'', card_data = c, createdBy = adminId,
             createdAt = now1, updatedAt = now2\<rparr>)"
  using verifyAdminPermissions_named_export
  by (simp add: createCard_with_def logger_named_export_def logger_call_instance
      log_and_rethrow_instance seq_def try_catch_def split: sum.splits)

subsection \<open>validateCardInput\<close>

lemma lit_inj: "lit a = lit b \<longleftrightarrow> a = b"
  unfolding lit_def using inj_of_char [where 'a = nat] by (simp add: inj_map_eq_map)

lemma js_trim_empty_iff: "js_trim s = [] \<longleftrightarrow> list_all js_whitespace s"
proof -
  have "(\<forall>x\<in>set (dropWhile js_whitespace s). js_whitespace x) \<longleftrightarrow> (\<forall>x\<in>set s. js_whitespace x)"
  proof
    assume a: "\<forall>x\<in>set (dropWhile js_whitespace s). js_whitespace x"
    have "dropWhile js_whitespace s = []"
    proof (rule ccontr)
      assume n: "dropWhile js_whitespace s \<noteq> []"
      then have "\<not> js_whitespace (hd (dropWhile js_whitespace s))" by (rule hd_dropWhile)
      moreover have "hd (dropWhile js_whitespace s) \<in> set (dropWhile js_whitespace s)"
        using n by simp
      ultimately show False using a by blast
    qed
    then show "\<forall>x\<in>set s. js_whitespace x" by (simp add: dropWhile_eq_Nil_conv)
  next
    assume "\<forall>x\<in>set s. js_whitespace x"
    then show "\<forall>x\<in>set (dropWhile js_whitespace s). js_whitespace x"
      using set_dropWhileD by fastforce
  qed
  then show ?thesis
    by (simp add: js_trim_def dropWhile_eq_Nil_conv list_all_iff)
qed

lemma empty_not_valid_rarity: "[] \<notin> set valid_rarities"
  by (simp add: valid_rarities_def lit_def)

text \<open>
  \<open>validateCardInput\<close> throws a \<open>ValidationError\<close> exactly on the rejected inputs, and
  returns on the others; the rarity \<open>mythic\<close> is rejected.
\<close>

lemma validateCardInput_iff:
  "(\<exists>e. validateCardInput c = Inl (AppErr e) \<and> class_of e = ValidationError) \<longleftrightarrow> rejected_input c"
  "validateCardInput c = Inr () \<longleftrightarrow> \<not> rejected_input c"
  using empty_not_valid_rarity
  by (auto simp: validateCardInput_def rejected_input_def throw_def new_ValidationError_def
      js_trim_empty_iff split: option.splits)

lemma mythic_rejected: "rarity c = Some (lit ''mythic'') \<Longrightarrow> rejected_input c"
  by (simp add: rejected_input_def valid_rarities_def lit_inj)

text \<open>
  So with the named export of the logger, \<open>createCard\<close> throws a \<open>ValidationError\<close>
  exactly on the rejected inputs, and returns the card on the others.
\<close>

lemma createCard_named_export_iff:
  "(\<exists>e. createCard_with logger_named_export c adminId now1 now2 = Inl (AppErr e)
        \<and> class_of e = ValidationError) \<longleftrightarrow> rejected_input c"
  "(\<exists>card. createCard_with logger_named_export c adminId now1 now2 = Inr card)
     \<longleftrightarrow> \<not> rejected_input c"
  using validateCardInput_iff [of c]
  by (cases "validateCardInput c"; auto simp: createCard_named_export seq_def)+

section \<open>Theorems: the Draw Engine of the specification\<close>

subsection \<open>The weighted choice stays inside the pool\<close>

lemma search_bounds: "lo \<le> hi \<Longrightarrow> lo \<le> search cum x lo hi \<and> search cum x lo hi \<le> hi"
proof (induction cum x lo hi rule: search.induct)
  case (1 cum x lo hi)
  show ?case
  proof (cases "lo < hi")
    case False
    with "1.prems" show ?thesis by (simp add: search.simps [of cum x lo hi])
  next
    case True
    define mid where "mid = (lo + hi) div 2"
    have m: "lo \<le> mid" "mid < hi" using True by (simp_all add: mid_def)
    show ?thesis
    proof (cases "x < cum ! mid")
      case True
      with "1.IH"(1) [OF \<open>lo < hi\<close> mid_def True] m \<open>lo < hi\<close> show ?thesis
        by (simp add: search.simps [of cum x lo hi] mid_def [symmetric] Let_def)
    next
      case False
      with "1.IH"(2) [OF \<open>lo < hi\<close> mid_def False] m \<open>lo < hi\<close> show ?thesis
        by (simp add: search.simps [of cum x lo hi] mid_def [symmetric] Let_def)
    qed
  qed
qed

lemma weighted_index_less: "ws \<noteq> [] \<Longrightarrow> weighted_index ws u < length ws"
  using search_bounds [of 0 "length ws - 1" "cumulative 0 ws" "u mod sum_list ws"]
  by (cases ws) (simp_all add: weighted_index_def)

lemma length_selection_weights: "length (selection_weights p) = length p"
  by (simp add: selection_weights_def Let_def)

subsection \<open>Pools\<close>

lemma restricted_pool_ok: "pool_ok (restricted_pool T ar ac)"
  by (auto simp: pool_ok_def restricted_pool_def list_all_iff)

lemma restricted_pool_all:
  "(\<And>r c. ar r \<Longrightarrow> ac c \<Longrightarrow> P r (isHolo c)) \<Longrightarrow> pool_all P (restricted_pool T ar ac)"
  by (auto simp: pool_all_def restricted_pool_def list_all_iff)

lemma set_remove_nth: "set (take j cs @ drop (Suc j) cs) \<subseteq> set cs"
  by (auto dest: in_set_takeD in_set_dropD)

lemma remove_card_list_all:
  assumes "list_all Q p" "i < length p"
    and step: "\<And>r w cs. Q (r, w, cs) \<Longrightarrow> take j cs @ drop (Suc j) cs \<noteq> []
                 \<Longrightarrow> Q (r, w, take j cs @ drop (Suc j) cs)"
  shows "list_all Q (remove_card p i j)"
proof -
  obtain r w cs where e: "p ! i = (r, w, cs)" by (cases "p ! i")
  have q: "Q (r, w, cs)" using assms(1,2) e by (metis list_all_length)
  show ?thesis
  proof (cases "take j cs @ drop (Suc j) cs = []")
    case True
    have "set (take i p @ drop (Suc i) p) \<subseteq> set p" by (rule set_remove_nth)
    then have "list_all Q (take i p @ drop (Suc i) p)"
      using assms(1) unfolding list_all_iff by blast
    moreover have "remove_card p i j = take i p @ drop (Suc i) p"
      unfolding remove_card_def Let_def e prod.case using True by simp
    ultimately show ?thesis by simp
  next
    case False
    have "set (p[i := (r, w, take j cs @ drop (Suc j) cs)])
            \<subseteq> insert (r, w, take j cs @ drop (Suc j) cs) (set p)"
      by (rule set_update_subset_insert)
    moreover have "Q (r, w, take j cs @ drop (Suc j) cs)" using step [OF q False] .
    ultimately have "list_all Q (p[i := (r, w, take j cs @ drop (Suc j) cs)])"
      using assms(1) unfolding list_all_iff by blast
    moreover have "remove_card p i j = p[i := (r, w, take j cs @ drop (Suc j) cs)]"
      unfolding remove_card_def Let_def e prod.case using False by (simp only: if_False)
    ultimately show ?thesis by simp
  qed
qed

lemma remove_card_ok: "pool_ok p \<Longrightarrow> i < length p \<Longrightarrow> pool_ok (remove_card p i j)"
  unfolding pool_ok_def by (rule remove_card_list_all) auto

lemma remove_card_all: "pool_all P p \<Longrightarrow> i < length p \<Longrightarrow> pool_all P (remove_card p i j)"
  unfolding pool_all_def
proof (rule remove_card_list_all)
  fix r :: CardRarity and w :: nat and cs :: "TableCard list"
  assume "case (r, w, cs) of (r, w, cs) \<Rightarrow> list_all (\<lambda>c. P r (isHolo c)) cs"
  moreover have "set (take j cs @ drop (Suc j) cs) \<subseteq> set cs" by (rule set_remove_nth)
  ultimately show "case (r, w, take j cs @ drop (Suc j) cs) of
      (r, w, cs) \<Rightarrow> list_all (\<lambda>c. P r (isHolo c)) cs"
    unfolding list_all_iff by auto
qed

text \<open>
  A draw from a pool that is not empty reads a position of the pool, and the card it
  returns has every property that all the cards of the pool have.
\<close>

lemma pick_in_pool:
  assumes "p \<noteq> []" "pool_ok p" "pick cv p g = ((c, i, j), g')"
  shows "i < length p"
    and "pool_all P p \<Longrightarrow> P (ref_rarity c) (ref_holo c)"
proof -
  obtain u g1 where n1: "next_random g = (u, g1)" by (cases "next_random g")
  define k where "k = weighted_index (selection_weights p) u"
  have "selection_weights p \<noteq> []"
    using assms(1) by (simp add: selection_weights_def Let_def)
  then have k: "k < length p"
    using weighted_index_less [of "selection_weights p" u]
    by (simp add: k_def length_selection_weights)
  obtain r w cs where e: "p ! k = (r, w, cs)" by (cases "p ! k")
  obtain v g2 where n2: "next_random g1 = (v, g2)" by (cases "next_random g1")
  have mem: "(r, w, cs) \<in> set p" using k e by (metis nth_mem)
  then have ne: "cs \<noteq> []" using assms(2) by (auto simp: pool_ok_def list_all_iff)
  have res: "i = k" "c = \<lparr>ref_id = tableCardId (cs ! (v mod length cs)), ref_rarity = r,
                 ref_holo = isHolo (cs ! (v mod length cs)),
                 snapshotValue = cv (tableCardId (cs ! (v mod length cs)))\<rparr>"
    using assms(3) by (auto simp: pick_def n1 n2 e k_def [symmetric] Let_def)
  show "i < length p" using res k by simp
  have "cs ! (v mod length cs) \<in> set cs" using ne by simp
  then show "pool_all P p \<Longrightarrow> P (ref_rarity c) (ref_holo c)"
    using mem res by (auto simp: pool_all_def list_all_iff)
qed

subsection \<open>Slots\<close>

lemma draw_slots_result:
  "pool_ok p \<Longrightarrow> pool_all P p \<Longrightarrow> draw_slots cv wr p n g = (Inr cs, g')
     \<Longrightarrow> length cs = n \<and> list_all (\<lambda>c. P (ref_rarity c) (ref_holo c)) cs"
proof (induction n arbitrary: p g cs)
  case 0
  then show ?case by simp
next
  case (Suc n)
  from Suc.prems(3) have ne: "p \<noteq> []" by (auto split: if_splits)
  obtain c i j g1 where pk: "pick cv p g = ((c, i, j), g1)"
    by (cases "pick cv p g") auto
  define p1 where "p1 = (if wr then remove_card p i j else p)"
  have i: "i < length p" and c: "P (ref_rarity c) (ref_holo c)"
    using pick_in_pool [OF ne Suc.prems(1) pk] Suc.prems(2) by auto
  have ok1: "pool_ok p1" and all1: "pool_all P p1"
    using Suc.prems(1,2) i by (auto simp: p1_def remove_card_ok remove_card_all)
  obtain rest where r: "draw_slots cv wr p1 n g1 = (Inr rest, g')" and cs: "cs = c # rest"
    using Suc.prems(3) ne pk
    by (auto simp: p1_def split: prod.splits sum.splits if_splits)
  from Suc.IH [OF ok1 all1 r] c cs show ?case by simp
qed

lemma draw_guaranteed_result:
  "pool_ok p \<Longrightarrow> pool_all P p \<Longrightarrow> draw_guaranteed cv T p n g = (Inr cs, g')
     \<Longrightarrow> length cs = n \<and> list_all (\<lambda>c. P (ref_rarity c) (ref_holo c)) cs"
  using draw_slots_result [of p P cv "nonRepeating T" n g cs g']
  by (auto simp: draw_guaranteed_def split: if_splits)

text \<open>With replacement, a draw from a pool that is not empty fills every slot.\<close>

lemma draw_slots_succeeds:
  "p \<noteq> [] \<Longrightarrow> \<exists>cs g'. draw_slots cv False p n g = (Inr cs, g')"
proof (induction n arbitrary: g)
  case 0
  then show ?case by simp
next
  case (Suc n)
  obtain c i j g1 where pk: "pick cv p g = ((c, i, j), g1)" by (cases "pick cv p g") auto
  from Suc.IH [OF Suc.prems, of g1] obtain cs g' where "draw_slots cv False p n g1 = (Inr cs, g')"
    by blast
  with Suc.prems pk show ?case by simp
qed

text \<open>
  In a non-repeating set, a guarantee that asks for more cards than its pool holds fails
  with \<open>InsufficientPoolError\<close>, and reads nothing from the random source.
\<close>

lemma draw_guaranteed_insufficient:
  "nonRepeating T \<Longrightarrow> pool_size p < n
     \<Longrightarrow> draw_guaranteed cv T p n g = (Inl InsufficientPoolError, g)"
  by (simp add: draw_guaranteed_def)

subsection \<open>The shuffle is a permutation\<close>

lemma mset_swap_list: "i < length xs \<Longrightarrow> j < length xs \<Longrightarrow> mset (swap xs i j) = mset xs"
  unfolding swap_def by (metis mset_swap)

lemma length_swap: "length (swap xs i j) = length xs"
  by (simp add: swap_def)

lemma mset_shuffle_down:
  "i \<le> length xs - 1 \<Longrightarrow> mset (fst (shuffle_down i xs g)) = mset xs"
proof (induction i arbitrary: xs g)
  case 0
  then show ?case by simp
next
  case (Suc i)
  obtain u g1 where n: "next_random g = (u, g1)" by (cases "next_random g")
  have a: "Suc i < length xs" using Suc.prems by simp
  have "u mod Suc (Suc i) < Suc (Suc i)" by simp
  then have b: "u mod Suc (Suc i) < length xs" using a by linarith
  have "mset (fst (shuffle_down i (swap xs (Suc i) (u mod Suc (Suc i))) g1))
          = mset (swap xs (Suc i) (u mod Suc (Suc i)))"
    using a by (intro Suc.IH) (simp add: length_swap)
  then show ?case using a b by (simp add: n mset_swap_list)
qed

lemma mset_shuffle: "mset (fst (shuffle xs g)) = mset xs"
  by (simp add: shuffle_def mset_shuffle_down)

lemma count_filter_mset: "mset xs = mset ys \<Longrightarrow> length (filter P xs) = length (filter P ys)"
  by (metis mset_filter size_mset)

subsection \<open>The draw\<close>

text \<open>
  Claim C4. Whatever the Rarity Table, the PackSpec, the catalog of values and the
  numbers the random source gives, a DrawResult that the Draw Engine produces has at
  least \<open>guaranteedRares\<close> cards of rarity RARE or higher and at least
  \<open>guaranteedHolos\<close> holo cards.
\<close>

theorem draw_guarantees:
  assumes "draw cv T spec g = (Inr cards, g')"
  shows "guaranteedRares spec \<le> length (filter (\<lambda>c. rare_or_higher (ref_rarity c)) cards)
       \<and> guaranteedHolos spec \<le> length (filter ref_holo cards)"
proof -
  from assms obtain rares g1 holos g2 fill g3 where
    r: "draw_guaranteed cv T (restricted_pool T rare_or_higher (\<lambda>c. True))
          (guaranteedRares spec) g = (Inr rares, g1)" and
    h: "draw_guaranteed cv T (restricted_pool T (\<lambda>r. True) isHolo)
          (guaranteedHolos spec) g1 = (Inr holos, g2)" and
    f: "draw_slots cv False (restricted_pool T (\<lambda>r. True) (\<lambda>c. True))
          (cardsPerPack spec - guaranteedRares spec - guaranteedHolos spec) g2 = (Inr fill, g3)" and
    s: "cards = fst (shuffle (rares @ holos @ fill) g3)"
    by (auto simp: draw_def split: prod.splits sum.splits)
  have rares: "length rares = guaranteedRares spec"
      "list_all (\<lambda>c. rare_or_higher (ref_rarity c)) rares"
    using draw_guaranteed_result [OF restricted_pool_ok _ r, of "\<lambda>r b. rare_or_higher r"]
    by (simp_all add: restricted_pool_all)
  have holos: "length holos = guaranteedHolos spec" "list_all ref_holo holos"
    using draw_guaranteed_result [OF restricted_pool_ok _ h, of "\<lambda>r b. b"]
    by (simp_all add: restricted_pool_all)
  have m: "mset cards = mset (rares @ holos @ fill)" using s by (simp add: mset_shuffle)
  have "length (filter (\<lambda>c. rare_or_higher (ref_rarity c)) rares) = length rares"
    using rares(2) by (simp add: list_all_iff)
  then have 1: "guaranteedRares spec \<le> length (filter (\<lambda>c. rare_or_higher (ref_rarity c)) cards)"
    using count_filter_mset [OF m, of "\<lambda>c. rare_or_higher (ref_rarity c)"] rares(1) by simp
  have "length (filter ref_holo holos) = length holos"
    using holos(2) by (simp add: list_all_iff)
  then have 2: "guaranteedHolos spec \<le> length (filter ref_holo cards)"
    using count_filter_mset [OF m, of ref_holo] holos(1) by simp
  from 1 2 show ?thesis by simp
qed

text \<open>
  The draw does produce results: from a set that is not non-repeating, whose table has a
  card of rarity RARE or higher and a holo card, every draw succeeds.
\<close>

lemma draw_succeeds:
  assumes "\<not> nonRepeating T"
    and "restricted_pool T rare_or_higher (\<lambda>c. True) \<noteq> []"
    and "restricted_pool T (\<lambda>r. True) isHolo \<noteq> []"
    and "restricted_pool T (\<lambda>r. True) (\<lambda>c. True) \<noteq> []"
  shows "\<exists>cards g'. draw cv T spec g = (Inr cards, g')"
proof -
  obtain rares g1 where r: "draw_guaranteed cv T (restricted_pool T rare_or_higher (\<lambda>c. True))
      (guaranteedRares spec) g = (Inr rares, g1)"
    using draw_slots_succeeds [OF assms(2)] assms(1) by (fastforce simp: draw_guaranteed_def)
  obtain holos g2 where h: "draw_guaranteed cv T (restricted_pool T (\<lambda>r. True) isHolo)
      (guaranteedHolos spec) g1 = (Inr holos, g2)"
    using draw_slots_succeeds [OF assms(3)] assms(1) by (fastforce simp: draw_guaranteed_def)
  obtain fill g3 where f: "draw_slots cv False (restricted_pool T (\<lambda>r. True) (\<lambda>c. True))
      (cardsPerPack spec - guaranteedRares spec - guaranteedHolos spec) g2 = (Inr fill, g3)"
    using draw_slots_succeeds [OF assms(4)] by blast
  show ?thesis using f by (auto simp: draw_def r h split: prod.splits)
qed

lemma example_pools:
  "\<not> nonRepeating example_table"
  "restricted_pool example_table rare_or_higher (\<lambda>c. True) \<noteq> []"
  "restricted_pool example_table (\<lambda>r. True) isHolo \<noteq> []"
  "restricted_pool example_table (\<lambda>r. True) (\<lambda>c. True) \<noteq> []"
  by (simp_all add: example_table_def restricted_pool_def all_rarities_def eligibleCards_def
      rare_or_higher_def)

text \<open>
  The guarantee at the example table. The draw of the small PackSpec (3 cards, 1 guaranteed
  rare, 1 guaranteed holo) gives the rare card \<open>r1\<close> and twice the holo card \<open>c2\<close>:
  one card of rarity RARE or higher and two holo cards. The draw of the PackSpec of the
  scenario (10 cards, 2 guaranteed rares, 1 guaranteed holo) succeeds with at least 2 cards
  of rarity RARE or higher and at least 1 holo card.
\<close>

theorem draw_guarantees_witness:
  "fst (draw example_value example_table small_spec example_source)
     = Inr [\<lparr>ref_id = lit ''r1'', ref_rarity = RARE, ref_holo = False, snapshotValue = 200\<rparr>,
            \<lparr>ref_id = lit ''c2'', ref_rarity = COMMON, ref_holo = True, snapshotValue = 10\<rparr>,
            \<lparr>ref_id = lit ''c2'', ref_rarity = COMMON, ref_holo = True, snapshotValue = 10\<rparr>]
   \<and> guaranteedRares small_spec
       \<le> length (filter (\<lambda>c. rare_or_higher (ref_rarity c))
           [\<lparr>ref_id = lit ''r1'', ref_rarity = RARE, ref_holo = False, snapshotValue = 200\<rparr>,
            \<lparr>ref_id = lit ''c2'', ref_rarity = COMMON, ref_holo = True, snapshotValue = 10\<rparr>,
            \<lparr>ref_id = lit ''c2'', ref_rarity = COMMON, ref_holo = True, snapshotValue = 10\<rparr>])
   \<and> guaranteedHolos small_spec
       \<le> length (filter ref_holo
           [\<lparr>ref_id = lit ''r1'', ref_rarity = RARE, ref_holo = False, snapshotValue = 200\<rparr>,
            \<lparr>ref_id = lit ''c2'', ref_rarity = COMMON, ref_holo = True, snapshotValue = 10\<rparr>,
            \<lparr>ref_id = lit ''c2'', ref_rarity = COMMON, ref_holo = True, snapshotValue = 10\<rparr>])
   \<and> (\<exists>cards g'. draw example_value example_table example_spec example_source = (Inr cards, g')
         \<and> 2 \<le> length (filter (\<lambda>c. rare_or_higher (ref_rarity c)) cards)
         \<and> 1 \<le> length (filter ref_holo cards))"
proof -
  let ?cards = "[\<lparr>ref_id = lit ''r1'', ref_rarity = RARE, ref_holo = False, snapshotValue = 200\<rparr>,
            \<lparr>ref_id = lit ''c2'', ref_rarity = COMMON, ref_holo = True, snapshotValue = 10\<rparr>,
            \<lparr>ref_id = lit ''c2'', ref_rarity = COMMON, ref_holo = True, snapshotValue = 10\<rparr>]"
  have e: "fst (draw example_value example_table small_spec example_source) = Inr ?cards"
    by code_simp
  then have "draw example_value example_table small_spec example_source
      = (Inr ?cards, snd (draw example_value example_table small_spec example_source))"
    by (metis prod.collapse)
  from draw_guarantees [OF this] have small:
    "guaranteedRares small_spec \<le> length (filter (\<lambda>c. rare_or_higher (ref_rarity c)) ?cards)
     \<and> guaranteedHolos small_spec \<le> length (filter ref_holo ?cards)" .
  from draw_succeeds [OF example_pools] obtain cards g' where
    d: "draw example_value example_table example_spec example_source = (Inr cards, g')"
    by blast
  from draw_guarantees [OF d] d have
    "\<exists>cards g'. draw example_value example_table example_spec example_source = (Inr cards, g')
         \<and> 2 \<le> length (filter (\<lambda>c. rare_or_higher (ref_rarity c)) cards)
         \<and> 1 \<le> length (filter ref_holo cards)"
    by (auto simp: example_spec_def)
  with e small show ?thesis by blast
qed

text \<open>
  Two more properties that section 4.2 asks of the draw: a PackSpec that satisfies its
  invariant yields exactly \<open>cardsPerPack\<close> cards, and one with \<open>cardsPerPack = 0\<close>
  yields the empty result without reading the random source.
\<close>

lemma draw_length:
  assumes "PackSpec_invariant spec" "draw cv T spec g = (Inr cards, g')"
  shows "length cards = cardsPerPack spec"
proof -
  from assms(2) obtain rares g1 holos g2 fill g3 where
    r: "draw_guaranteed cv T (restricted_pool T rare_or_higher (\<lambda>c. True))
          (guaranteedRares spec) g = (Inr rares, g1)" and
    h: "draw_guaranteed cv T (restricted_pool T (\<lambda>r. True) isHolo)
          (guaranteedHolos spec) g1 = (Inr holos, g2)" and
    f: "draw_slots cv False (restricted_pool T (\<lambda>r. True) (\<lambda>c. True))
          (cardsPerPack spec - guaranteedRares spec - guaranteedHolos spec) g2 = (Inr fill, g3)" and
    s: "cards = fst (shuffle (rares @ holos @ fill) g3)"
    by (auto simp: draw_def split: prod.splits sum.splits)
  have "length rares = guaranteedRares spec"
    using draw_guaranteed_result [OF restricted_pool_ok _ r, of "\<lambda>r b. True"]
    by (simp add: restricted_pool_all)
  moreover have "length holos = guaranteedHolos spec"
    using draw_guaranteed_result [OF restricted_pool_ok _ h, of "\<lambda>r b. True"]
    by (simp add: restricted_pool_all)
  moreover have "length fill = cardsPerPack spec - guaranteedRares spec - guaranteedHolos spec"
    using draw_slots_result [OF restricted_pool_ok _ f, of "\<lambda>r b. True"]
    by (simp add: restricted_pool_all)
  moreover have "length cards = length (rares @ holos @ fill)"
    using s mset_shuffle [of "rares @ holos @ fill" g3] by (metis size_mset)
  ultimately show ?thesis using assms(1) by (simp add: PackSpec_invariant_def)
qed

lemma draw_empty_pack:
  assumes "PackSpec_invariant spec" "cardsPerPack spec = 0"
  shows "draw cv T spec g = (Inr [], g)"
proof -
  from assms have z: "guaranteedRares spec = 0" "guaranteedHolos spec = 0"
    by (simp_all add: PackSpec_invariant_def)
  show ?thesis
    by (simp add: draw_def draw_guaranteed_def z assms(2) shuffle_def)
qed

text \<open>
  The same for the whole draw: in a non-repeating set, when the pool of the rarities RARE
  or higher is smaller than \<open>guaranteedRares\<close>, or the pool of the holo cards smaller
  than \<open>guaranteedHolos\<close>, the draw fails with \<open>InsufficientPoolError\<close>.
\<close>

lemma draw_insufficient:
  assumes "nonRepeating T"
    and "pool_size (restricted_pool T rare_or_higher (\<lambda>c. True)) < guaranteedRares spec
         \<or> pool_size (restricted_pool T (\<lambda>r. True) isHolo) < guaranteedHolos spec"
  shows "fst (draw cv T spec g) = Inl InsufficientPoolError"
proof -
  obtain res g1 where first:
    "draw_guaranteed cv T (restricted_pool T rare_or_higher (\<lambda>c. True))
       (guaranteedRares spec) g = (res, g1)"
    by (cases "draw_guaranteed cv T (restricted_pool T rare_or_higher (\<lambda>c. True))
                 (guaranteedRares spec) g") auto
  show ?thesis
  proof (cases res)
    case (Inl e)
    then have "res = Inl InsufficientPoolError" by (cases e) simp
    with first show ?thesis by (simp add: draw_def)
  next
    case (Inr rares)
    with first assms(1) have "\<not> pool_size (restricted_pool T rare_or_higher (\<lambda>c. True))
                              < guaranteedRares spec"
      by (auto simp: draw_guaranteed_def)
    with assms(2) have "pool_size (restricted_pool T (\<lambda>r. True) isHolo) < guaranteedHolos spec"
      by simp
    from draw_guaranteed_insufficient [OF assms(1) this]
    have "draw_guaranteed cv T (restricted_pool T (\<lambda>r. True) isHolo) (guaranteedHolos spec) g1
            = (Inl InsufficientPoolError, g1)" .
    with first Inr show ?thesis by (simp add: draw_def)
  qed
qed

section \<open>Theorems: the error taxonomy\<close>

text \<open>
  Claim C8, amended. The module customErrors.ts exports a class for each of
  \<open>ValidationError\<close>, \<open>NotFoundError\<close>, \<open>ConflictError\<close> and
  \<open>InternalServerError\<close>; the exported names and the exported classes are pairwise
  distinct; an object of any exported class \<open>k\<close> constructed with a message is of class
  \<open>k\<close> and carries that message; the four classes carry the status codes 400, 404, 409
  and 500. The module exports no class named \<open>InsufficientPoolError\<close>. In the Draw
  Engine of section 4.2, a guarantee draw of a non-repeating set whose pool is smaller
  than the requested count fails with \<open>InsufficientPoolError\<close> and reads nothing from
  the random source, and so does the whole draw when the pool of the guaranteed rares or
  the pool of the guaranteed holos is too small.
\<close>

theorem taxonomy_classes_defined:
  "exported_class ''ValidationError'' = Some ValidationError
   \<and> exported_class ''NotFoundError'' = Some NotFoundError
   \<and> exported_class ''ConflictError'' = Some ConflictError
   \<and> exported_class ''InternalServerError'' = Some InternalServerError
   \<and> distinct (map fst customErrors_exports) \<and> distinct (map snd customErrors_exports)
   \<and> class_of (construct k msg) = k
   \<and> message (base_of (construct k msg)) = msg
   \<and> statusCode (base_of (construct ValidationError msg)) = Num 400
   \<and> statusCode (base_of (construct NotFoundError msg)) = Num 404
   \<and> statusCode (base_of (construct ConflictError msg)) = Num 409
   \<and> statusCode (base_of (construct InternalServerError msg)) = Num 500
   \<and> exported_class ''InsufficientPoolError'' = None
   \<and> (nonRepeating T \<and> pool_size p < n
        \<longrightarrow> draw_guaranteed cv T p n g = (Inl InsufficientPoolError, g))
   \<and> (nonRepeating T
        \<and> (pool_size (restricted_pool T rare_or_higher (\<lambda>c. True)) < guaranteedRares spec
           \<or> pool_size (restricted_pool T (\<lambda>r. True) isHolo) < guaranteedHolos spec)
        \<longrightarrow> fst (draw cv T spec g) = Inl InsufficientPoolError)"
proof -
  have classes:
    "exported_class ''ValidationError'' = Some ValidationError
     \<and> exported_class ''NotFoundError'' = Some NotFoundError
     \<and> exported_class ''ConflictError'' = Some ConflictError
     \<and> exported_class ''InternalServerError'' = Some InternalServerError
     \<and> distinct (map fst customErrors_exports) \<and> distinct (map snd customErrors_exports)
     \<and> class_of (construct k msg) = k
     \<and> message (base_of (construct k msg)) = msg
     \<and> statusCode (base_of (construct ValidationError msg)) = Num 400
     \<and> statusCode (base_of (construct NotFoundError msg)) = Num 404
     \<and> statusCode (base_of (construct ConflictError msg)) = Num 409
     \<and> statusCode (base_of (construct InternalServerError msg)) = Num 500
     \<and> exported_class ''InsufficientPoolError'' = None"
    by (cases k)
       (simp_all add: exported_class_def customErrors_exports_def new_AppError_def
          new_ValidationError_def new_NotFoundError_def new_UnauthorizedError_def
          new_ForbiddenError_def new_ConflictError_def new_InternalServerError_def
          AppError_init_def or_default_def)
  have slots: "nonRepeating T \<and> pool_size p < n
        \<longrightarrow> draw_guaranteed cv T p n g = (Inl InsufficientPoolError, g)"
    by (simp add: draw_guaranteed_insufficient)
  have whole: "nonRepeating T
        \<and> (pool_size (restricted_pool T rare_or_higher (\<lambda>c. True)) < guaranteedRares spec
           \<or> pool_size (restricted_pool T (\<lambda>r. True) isHolo) < guaranteedHolos spec)
        \<longrightarrow> fst (draw cv T spec g) = Inl InsufficientPoolError"
    using draw_insufficient [of T spec cv g] by blast
  from classes slots whole show ?thesis by blast
qed

text \<open>
  At the example: the non-repeating example table has two cards of rarity RARE or higher,
  so the guarantee of three rares fails with \<open>InsufficientPoolError\<close>, as a guarantee
  draw and as a whole draw; and a \<open>ValidationError\<close> constructed with a message is of
  its class, carries the message and the status code 400.
\<close>

theorem taxonomy_classes_defined_witness:
  "nonRepeating non_repeating_table
   \<and> pool_size (restricted_pool non_repeating_table rare_or_higher (\<lambda>c. True)) = 2
   \<and> guaranteedRares demanding_spec = 3
   \<and> draw_guaranteed example_value non_repeating_table
        (restricted_pool non_repeating_table rare_or_higher (\<lambda>c. True)) 3 example_source
       = (Inl InsufficientPoolError, example_source)
   \<and> fst (draw example_value non_repeating_table demanding_spec example_source)
       = Inl InsufficientPoolError
   \<and> class_of (construct ValidationError (lit ''bad pack'')) = ValidationError
   \<and> message (base_of (construct ValidationError (lit ''bad pack''))) = lit ''bad pack''
   \<and> statusCode (base_of (construct ValidationError (lit ''bad pack''))) = Num 400
   \<and> exported_class ''InsufficientPoolError'' = None"
proof -
  have nr: "nonRepeating non_repeating_table"
    by (simp add: non_repeating_table_def)
  have size: "pool_size (restricted_pool non_repeating_table rare_or_higher (\<lambda>c. True)) = 2"
    by (simp add: non_repeating_table_def example_table_def restricted_pool_def pool_size_def
        all_rarities_def eligibleCards_def weightOf_def rare_or_higher_def)
  have rares: "guaranteedRares demanding_spec = 3"
    by (simp add: demanding_spec_def)
  from taxonomy_classes_defined [where k = ValidationError and msg = "lit ''bad pack''"
      and T = non_repeating_table
      and p = "restricted_pool non_repeating_table rare_or_higher (\<lambda>c. True)" and n = 3
      and cv = example_value and g = example_source and spec = demanding_spec]
    nr size rares
  show ?thesis by simp
qed

end
